theory Spec2Isabelle
  imports Complex_Main "HOL-Library.Word" "HOL-Library.Multiset" "HOL-Library.Log_Nat"
begin

unbundle bit_operations_syntax

section \<open>Rotating-star potential: embedding of rot\_star.h\<close>

text \<open>
  The library is a set of C++ templates over a scalar type \<open>T\<close>. The embedding
  instantiates \<open>T\<close> with the real numbers: \<open>std::sqrt\<close> is \<^const>\<open>sqrt\<close>,
  \<open>std::cbrt\<close> is \<open>root 3\<close>, \<open>std::abs\<close> is the absolute value, and the decimal
  literals of the source denote the rationals they spell (\<open>8./27\<close> is \<open>8/27\<close>,
  \<open>0.1\<close> is \<open>1/10\<close>). Rounding, overflow and the IEEE infinities are outside this
  model; the one NaN that the source returns on purpose is the value \<^const>\<open>None\<close>.
  Where a property depends on rounding, the analytic approximation is read a second
  time with \<open>T = double\<close>, each operation rounded (the definitions ending in \<open>_dbl\<close>).
  The mask \<open>choice\<close> is a C++ \<open>unsigned\<close>, a 32-bit word. An output array is a list,
  written by index.
\<close>

subsection \<open>Constants taken from utils.h\<close>

text \<open>
  Modelled from the spec: the header utils/utils.h, which declares \<open>utils::M_4PI\<close> and
  \<open>utils::M_2PI\<close>, is not among the sources. The specification gives the prefactors in
  which they occur as \<open>4\<pi>/Omega0^2\<close>, \<open>4\<pi>/(3*Omega0^3)\<close> and \<open>2\<pi>/Omega0^3\<close>, so the two
  constants are \<open>4\<pi>\<close> and \<open>2\<pi>\<close>.
\<close>

definition M_4PI :: real where
  "M_4PI = 4 * pi"

definition M_2PI :: real where
  "M_2PI = 2 * pi"

subsection \<open>Potential evaluator\<close>

text \<open>\<open>lagrange_point\<close>: NaN when \<open>omega == 0\<close>, otherwise \<open>std::cbrt(omega*omega)\<close>.\<close>

definition lagrange_point :: "real \<Rightarrow> real option" where
  "lagrange_point omega = (if omega = 0 then None else Some (root 3 (omega * omega)))"

text \<open>\<open>potential_on_x_axis\<close>: \<open>1/std::abs(x) + omega*omega*x*x/2\<close>.\<close>

definition potential_on_x_axis :: "real \<Rightarrow> real \<Rightarrow> real" where
  "potential_on_x_axis x omega = 1 / \<bar>x\<bar> + omega * omega * x * x / 2"

text \<open>
  \<open>critical_potential\<close>: NaN when \<open>omega == 0\<close>, otherwise \<open>3*std::pow(omega, 2./3)/2\<close>.
  \<open>std::pow\<close> of a negative base and a fractional exponent is NaN as well.
\<close>

definition critical_potential :: "real \<Rightarrow> real option" where
  "critical_potential omega =
     (if omega = 0 then None
      else if omega < 0 then None
      else Some (3 * (omega powr (2 / 3)) / 2))"

text \<open>\<open>pole\<close>: \<open>1/Omega0\<close>.\<close>

definition pole :: "real \<Rightarrow> real \<Rightarrow> real" where
  "pole Omega0 omega = 1 / Omega0"

subsection \<open>Axis-intercept solver\<close>

text \<open>
  The loop \<open>for (auto && x: roots) if (x > 0) { points.push_back(x); points.push_back(-x); }\<close>
  over the roots in the order the solver returned them.
\<close>

fun push_roots :: "real list \<Rightarrow> real list \<Rightarrow> real list" where
  "push_roots [] points = points"
| "push_roots (x # roots) points =
     push_roots roots (if x > 0 then points @ [x, - x] else points)"

text \<open>
  \<open>points_on_x_axis\<close>. The function \<open>utils::solve_cubic\<close> is not among the sources; it is
  the parameter \<open>solve_cubic\<close>, which receives the coefficient array
  \<open>{1, -Omega0, 0, omega*omega/2}\<close> and returns the vector \<open>roots\<close>. The caller's vector
  \<open>points\<close> is passed in and the updated vector is returned: the source appends to it
  and never clears it.

  The first statement, \<open>if (omega == 0) return 1/Omega0;\<close>, stands in a function
  returning \<open>void\<close>. Whatever a compiler makes of the operand, the statement can only
  leave the function, and nothing has been stored in \<open>points\<close> by then.

  \<open>std::sort\<close> is \<^const>\<open>sort\<close>; \<open>pop_back\<close> is \<^const>\<open>butlast\<close> and
  \<open>erase(begin())\<close> is \<^const>\<open>tl\<close>.
\<close>

definition points_on_x_axis ::
  "(real list \<Rightarrow> real list) \<Rightarrow> real list \<Rightarrow> real \<Rightarrow> real \<Rightarrow> bool \<Rightarrow> real list" where
  "points_on_x_axis solve_cubic points Omega0 omega trimming =
     (if omega = 0 then points
      else
        let roots = solve_cubic [1, - Omega0, 0, omega * omega / 2];
            points = push_roots roots points;
            points = sort points
        in if length points \<ge> 2 \<and> trimming then tl (butlast points) else points)"

subsection \<open>Geometry integrators: shared pieces\<close>

text \<open>
  What a call leaves behind: the output array and the lines written to \<open>std::cerr\<close>.
\<close>

record outcome =
  arr :: "real list"
  cerr :: "string list"

text \<open>The guarded store \<open>if (b) a[i] = x;\<close>.\<close>

definition store_if :: "bool \<Rightarrow> nat \<Rightarrow> real \<Rightarrow> real list \<Rightarrow> real list" where
  "store_if b i x a = (if b then a[i := x] else a)"

text \<open>The diagnostic both integrators print (the source uses the same text in both).\<close>

definition no_solution_msg :: string where
  "no_solution_msg = ''rotstar::area_volume:There is no solution for equator.'' @ [CHR 0x0A]"

text \<open>The coefficient tables \<open>a[]\<close> of the analytic approximation.\<close>

definition area_coeffs :: "real list" where
  "area_coeffs = [1, 0.6666666666666666, 1, 1.9428571428571428, 4.314285714285714,
     10.398268398268398, 26.48877788877789, 70.22541902541903, 191.8665770657039,
     536.7383091809828, 1536.0162254282043]"

definition volume_coeffs :: "real list" where
  "volume_coeffs = [1, 1, 1.6, 3.142857142857143, 6.933333333333334,
     16.484848484848484, 41.302697302697304, 107.56923076923077,
     288.6243489583333, 793.03125, 2230.111036424513]"

text \<open>
  The polynomial \<open>a[0] + t*(a[1] + t*(a[2] + ... + t*(a[9] + t*a[10])...))\<close>, written out
  three times in the source.
\<close>

definition series11 :: "real list \<Rightarrow> real \<Rightarrow> real" where
  "series11 a t =
     a ! 0 + t * (a ! 1 + t * (a ! 2 + t * (a ! 3 + t * (a ! 4 + t * (a ! 5 +
     t * (a ! 6 + t * (a ! 7 + t * (a ! 8 + t * (a ! 9 + t * a ! 10)))))))))"

text \<open>
  The polynomial \<open>dVoldt\<close>:
  \<open>a[1] + t*(2*a[2] + t*(3*a[3] + ... + t*(9*a[9] + t*10*a[10])...))\<close>.
\<close>

definition dseries11 :: "real list \<Rightarrow> real \<Rightarrow> real" where
  "dseries11 a t =
     a ! 1 + t * (2 * a ! 2 + t * (3 * a ! 3 + t * (4 * a ! 4 + t * (5 * a ! 5 +
     t * (6 * a ! 6 + t * (7 * a ! 7 + t * (8 * a ! 8 + t * (9 * a ! 9 + t * 10 * a ! 10))))))))"

text \<open>The step count \<open>m = 1 << 16\<close>.\<close>

definition m_steps :: nat where
  "m_steps = 2 ^ 16"

subsection \<open>\<open>area_volume\<close>\<close>

text \<open>
  One pass of the loop body of \<open>area_volume\<close> on the loop variables \<open>(v, s, A, V)\<close>.
  An entry \<open>k[i][1]\<close> or \<open>k[i][2]\<close> that the body does not assign keeps the \<open>0\<close> it was
  initialised with.
\<close>

definition av_body ::
  "bool \<Rightarrow> bool \<Rightarrow> real \<Rightarrow> real \<Rightarrow> real \<times> real \<times> real \<times> real \<Rightarrow> real \<times> real \<times> real \<times> real" where
  "av_body b_area b_volume t dv st =
     (case st of (v, s, A, V) \<Rightarrow>
        let v1 = v;
            s1 = s;
            q = v1 * v1 + s1;
            F = 2 * v1 / (1 - t * q * sqrt q);
            k00 = dv * F;
            k01 = (if b_area then dv * sqrt (s1 + F * F / 4) else 0);
            k02 = (if b_volume then dv * s1 else 0);
            s1 = s + k00 / 2;
            v1 = v - dv / 2;
            q = v1 * v1 + s1;
            F = 2 * v1 / (1 - t * q * sqrt q);
            k10 = dv * F;
            k11 = (if b_area then dv * sqrt (s1 + F * F / 4) else 0);
            k12 = (if b_volume then dv * s1 else 0);
            s1 = s + k10 / 2;
            q = v1 * v1 + s1;
            F = 2 * v1 / (1 - t * q * sqrt q);
            k20 = dv * F;
            k21 = (if b_area then dv * sqrt (s1 + F * F / 4) else 0);
            k22 = (if b_volume then dv * s1 else 0);
            s1 = s + k20;
            v1 = v - dv;
            q = v1 * v1 + s1;
            F = 2 * v1 / (1 - t * q * sqrt q);
            k30 = dv * F;
            k31 = (if b_area then dv * sqrt (s1 + F * F / 4) else 0);
            k32 = (if b_volume then dv * s1 else 0)
        in (v - dv,
            s + (k00 + 2 * (k10 + k20) + k30) / 6,
            if b_area then A + (k01 + 2 * (k11 + k21) + k31) / 6 else A,
            if b_volume then V + (k02 + 2 * (k12 + k22) + k32) / 6 else V))"

text \<open>The loop \<open>for (int i = 0; i < m; ++i)\<close>, by the number of passes left.\<close>

fun av_loop ::
  "nat \<Rightarrow> bool \<Rightarrow> bool \<Rightarrow> real \<Rightarrow> real \<Rightarrow> real \<times> real \<times> real \<times> real \<Rightarrow> real \<times> real \<times> real \<times> real" where
  "av_loop 0 b_area b_volume t dv st = st"
| "av_loop (Suc n) b_area b_volume t dv st =
     av_loop n b_area b_volume t dv (av_body b_area b_volume t dv st)"

text \<open>
  The analytic approximation of \<open>area_volume\<close>: the body of \<open>if (t < 0.1) { ... }\<close>, up
  to its \<open>return\<close>.
\<close>

definition av_series :: "real list \<Rightarrow> bool \<Rightarrow> bool \<Rightarrow> real \<Rightarrow> real \<Rightarrow> real \<Rightarrow> real list" where
  "av_series av b_area b_volume Omega0 Omega2 t =
     (let f = M_4PI / Omega2
      in store_if b_volume 1 (f * series11 volume_coeffs t / (3 * Omega0))
           (store_if b_area 0 (f * series11 area_coeffs t) av))"

text \<open>
  The integration of \<open>area_volume\<close>: from \<open>const int m = 1 << 16;\<close> to the end of the
  function.
\<close>

definition av_integrate :: "real list \<Rightarrow> bool \<Rightarrow> bool \<Rightarrow> real \<Rightarrow> real \<Rightarrow> real \<Rightarrow> real list" where
  "av_integrate av b_area b_volume Omega2 Omega3 t =
     (let dv = 1 / real m_steps
      in case av_loop m_steps b_area b_volume t dv (1, 0, 0, 0) of
           (v, s, A, V) \<Rightarrow>
             store_if b_volume 1 (M_2PI * V / Omega3)
               (store_if b_area 0 (M_4PI * A / Omega2) av))"

definition area_volume :: "real list \<Rightarrow> 32 word \<Rightarrow> real \<Rightarrow> real \<Rightarrow> outcome" where
  "area_volume av choice Omega0 omega =
     (let b_area = (choice AND 1 = 1);
          b_volume = (choice AND 2 = 2)
      in if \<not> b_area \<and> \<not> b_volume then \<lparr>arr = av, cerr = []\<rparr>
      else
        let Omega2 = Omega0 * Omega0;
            Omega3 = Omega0 * Omega2
        in if omega = 0 then
             \<lparr>arr = store_if b_volume 1 (M_4PI / (3 * Omega3))
                      (store_if b_area 0 (M_4PI / Omega2) av),
              cerr = []\<rparr>
        else
          let t = omega * omega / Omega3
          in if t > 8 / 27 then \<lparr>arr = av, cerr = [no_solution_msg]\<rparr>
          else if t < 0.1 then \<lparr>arr = av_series av b_area b_volume Omega0 Omega2 t, cerr = []\<rparr>
          else \<lparr>arr = av_integrate av b_area b_volume Omega2 Omega3 t, cerr = []\<rparr>)"

subsection \<open>\<open>volume\<close>\<close>

text \<open>
  One pass of the loop body of \<open>volume\<close> on the loop variables
  \<open>(v, s, Vol, dVoldOmega)\<close>.
\<close>

definition vol_body ::
  "bool \<Rightarrow> bool \<Rightarrow> real \<Rightarrow> real \<Rightarrow> real \<times> real \<times> real \<times> real \<Rightarrow> real \<times> real \<times> real \<times> real" where
  "vol_body b_Vol b_dVoldOmega t dv st =
     (case st of (v, s, Vol, dVoldOmega) \<Rightarrow>
        let v1 = v;
            s1 = s;
            q = v1 * v1 + s1;
            f = q * sqrt q;
            F = 2 * v1 / (1 - t * f);
            k00 = dv * F;
            k01 = (if b_Vol then dv * s1 else 0);
            k02 = (if b_dVoldOmega then dv * (s1 + t * s1 * f / (1 - t * f)) else 0);
            s1 = s + k00 / 2;
            v1 = v - dv / 2;
            q = v1 * v1 + s1;
            f = q * sqrt q;
            F = 2 * v1 / (1 - t * f);
            k10 = dv * F;
            k11 = (if b_Vol then dv * s1 else 0);
            k12 = (if b_dVoldOmega then dv * (s1 + t * s1 * f / (1 - t * f)) else 0);
            s1 = s + k10 / 2;
            q = v1 * v1 + s1;
            f = q * sqrt q;
            F = 2 * v1 / (1 - t * f);
            k20 = dv * F;
            k21 = (if b_Vol then dv * s1 else 0);
            k22 = (if b_dVoldOmega then dv * (s1 + t * s1 * f / (1 - t * f)) else 0);
            s1 = s + k20;
            v1 = v - dv;
            q = v1 * v1 + s1;
            f = q * sqrt q;
            F = 2 * v1 / (1 - t * f);
            k30 = dv * F;
            k31 = (if b_Vol then dv * s1 else 0);
            k32 = (if b_dVoldOmega then dv * (s1 + t * s1 * f / (1 - t * f)) else 0)
        in (v - dv,
            s + (k00 + 2 * (k10 + k20) + k30) / 6,
            if b_Vol then Vol + (k01 + 2 * (k11 + k21) + k31) / 6 else Vol,
            if b_dVoldOmega then dVoldOmega + (k02 + 2 * (k12 + k22) + k32) / 6
            else dVoldOmega))"

fun vol_loop ::
  "nat \<Rightarrow> bool \<Rightarrow> bool \<Rightarrow> real \<Rightarrow> real \<Rightarrow> real \<times> real \<times> real \<times> real \<Rightarrow> real \<times> real \<times> real \<times> real" where
  "vol_loop 0 b_Vol b_dVoldOmega t dv st = st"
| "vol_loop (Suc n) b_Vol b_dVoldOmega t dv st =
     vol_loop n b_Vol b_dVoldOmega t dv (vol_body b_Vol b_dVoldOmega t dv st)"

text \<open>
  The analytic approximation of \<open>volume\<close>: the body of \<open>if (t < 0.1) { ... }\<close>, up to
  its \<open>return\<close>.
\<close>

definition vol_series :: "real list \<Rightarrow> bool \<Rightarrow> bool \<Rightarrow> real \<Rightarrow> real \<Rightarrow> real \<Rightarrow> real list" where
  "vol_series res b_Vol b_dVoldOmega Omega0 Omega3 t =
     (let Vol = series11 volume_coeffs t;
          f = M_4PI / (3 * Omega3)
      in store_if b_dVoldOmega 1
           (- 3 * f * (Vol + t * dseries11 volume_coeffs t) / Omega0)
           (store_if b_Vol 0 (f * Vol) res))"

text \<open>
  The integration of \<open>volume\<close>: from \<open>const int m = 1 << 16;\<close> to the end of the
  function.
\<close>

definition vol_integrate :: "real list \<Rightarrow> bool \<Rightarrow> bool \<Rightarrow> real \<Rightarrow> real \<Rightarrow> real \<Rightarrow> real list" where
  "vol_integrate res b_Vol b_dVoldOmega Omega0 Omega3 t =
     (let dv = 1 / real m_steps
      in case vol_loop m_steps b_Vol b_dVoldOmega t dv (1, 0, 0, 0) of
           (v, s, Vol, dVoldOmega) \<Rightarrow>
             let f = M_2PI / Omega3
             in store_if b_dVoldOmega 1 (- 3 * f * dVoldOmega / Omega0)
                  (store_if b_Vol 0 (f * Vol) res))"

definition volume :: "real list \<Rightarrow> 32 word \<Rightarrow> real \<Rightarrow> real \<Rightarrow> outcome" where
  "volume res choice Omega0 omega =
     (let b_Vol = (choice AND 1 = 1);
          b_dVoldOmega = (choice AND 2 = 2)
      in if \<not> b_Vol \<and> \<not> b_dVoldOmega then \<lparr>arr = res, cerr = []\<rparr>
      else
        let Omega2 = Omega0 * Omega0;
            Omega3 = Omega0 * Omega2
        in if omega = 0 then
             let Vol = M_4PI / (3 * Omega3)
             in \<lparr>arr = store_if b_dVoldOmega 1 (- 3 * Vol / Omega0)
                         (store_if b_Vol 0 Vol res),
                 cerr = []\<rparr>
        else
          let t = omega * omega / Omega3
          in if t > 8 / 27 then \<lparr>arr = res, cerr = [no_solution_msg]\<rparr>
          else if t < 0.1 then
            \<lparr>arr = vol_series res b_Vol b_dVoldOmega Omega0 Omega3 t, cerr = []\<rparr>
          else
            \<lparr>arr = vol_integrate res b_Vol b_dVoldOmega Omega0 Omega3 t, cerr = []\<rparr>)"

subsection \<open>The cubic solver as the specification words it\<close>

text \<open>
  Modelled from the spec: \<open>utils::solve_cubic\<close> is not among the sources. The
  specification has the solver find the real roots of
  \<open>x^3 - Omega0*x^2 + omega^2/2 = 0\<close>, that is, it reads the array
  \<open>{1, -Omega0, 0, omega*omega/2}\<close> from the cubic coefficient down. \<open>cubic_spec a x\<close>
  is the value at \<open>x\<close> of the cubic with the coefficient array \<open>a\<close> read that way.
\<close>

definition cubic_spec :: "real list \<Rightarrow> real \<Rightarrow> real" where
  "cubic_spec a x = a ! 0 * x ^ 3 + a ! 1 * x\<^sup>2 + a ! 2 * x + a ! 3"

text \<open>
  The other reading of the same array, from the constant term up. The comment of
  \<open>points_on_x_axis\<close> in the source names the result as the points with
  \<open>Omega(x,0,0) = Omega_0\<close>; for \<open>x > 0\<close> that equation, multiplied by \<open>x\<close>, is
  \<open>1 - Omega0*x + (omega^2/2)*x^3 = 0\<close>, which is \<open>cubic_ascending\<close> of the array.
\<close>

definition cubic_ascending :: "real list \<Rightarrow> real \<Rightarrow> real" where
  "cubic_ascending a x = a ! 0 + a ! 1 * x + a ! 2 * x\<^sup>2 + a ! 3 * x ^ 3"

text \<open>
  Two solvers for one worked example, \<open>Omega0 = 13/8\<close> and \<open>omega = 3/4\<close>, whose array is
  \<open>{1, -13/8, 0, 9/32}\<close>. Read from the cubic term down the cubic is
  \<open>x^3 - 13/8 x^2 + 9/32 = (x + 3/8)(x - 1/2)(x - 3/2)\<close>; read from the constant term up
  it is \<open>9/32 x^3 - 13/8 x + 1 = 9/32 (x + 8/3)(x - 2/3)(x - 2)\<close>.
\<close>

definition example_roots :: "real list \<Rightarrow> real list" where
  "example_roots a = (if a = [1, - (13 / 8), 0, 9 / 32] then [- (3 / 8), 1 / 2, 3 / 2] else [])"

definition example_roots_ascending :: "real list \<Rightarrow> real list" where
  "example_roots_ascending a =
     (if a = [1, - (13 / 8), 0, 9 / 32] then [- (8 / 3), 2 / 3, 2] else [])"

subsection \<open>The series as the specification words it\<close>

text \<open>
  The specification describes the volume series as a polynomial in \<open>t\<close> evaluated by
  Horner's scheme, and the derivative series as its term-by-term derivative:
  coefficient \<open>k\<close> of the derivative is \<open>k\<close> times coefficient \<open>a[k]\<close>. These two
  definitions follow those words, for any coefficient list; the source's written-out
  polynomials \<^const>\<open>series11\<close> and \<^const>\<open>dseries11\<close> are compared with them below.
\<close>

fun horner :: "real list \<Rightarrow> real \<Rightarrow> real" where
  "horner [] t = 0"
| "horner (c # cs) t = c + t * horner cs t"

definition termwise_derivative :: "real list \<Rightarrow> real list" where
  "termwise_derivative a = map (\<lambda>k. real k * a ! k) [1..<length a]"

subsection \<open>The analytic approximation in double precision\<close>

text \<open>
  With \<open>T = double\<close> every operation of the source rounds its exact result to the
  nearest number with 53 significant bits, ties to the even one. A double is modelled
  by the real number it denotes. \<open>binade x\<close> is the exponent \<open>e\<close> with
  \<open>2^e \<le> |x| < 2^(e+1)\<close>, \<open>nearest_even\<close> rounds to an integer, and \<open>fl\<close> rounds to a
  double. The exponent is not limited: overflow and subnormal numbers are outside
  this model.
\<close>

definition binade :: "real \<Rightarrow> int" where
  "binade x =
     (let k = (if 1 \<le> \<bar>x\<bar> then bitlen \<lfloor>\<bar>x\<bar>\<rfloor> - 1 else - bitlen \<lfloor>1 / \<bar>x\<bar>\<rfloor>)
      in if 2 powi (k + 1) \<le> \<bar>x\<bar> then k + 1 else k)"

definition nearest_even :: "real \<Rightarrow> int" where
  "nearest_even y =
     (let n = \<lfloor>y\<rfloor>;
          r = y - of_int n
      in if r < 1 / 2 then n
         else if 1 / 2 < r then n + 1
         else if even n then n else n + 1)"

definition fl :: "real \<Rightarrow> real" where
  "fl x =
     (if x = 0 then 0
      else let u = 2 powi (binade x - 52) in of_int (nearest_even (x / u)) * u)"

text \<open>The operators \<open>+\<close>, \<open>*\<close> and \<open>/\<close> on doubles.\<close>

definition dbl_add :: "real \<Rightarrow> real \<Rightarrow> real" where
  "dbl_add a b = fl (a + b)"

definition dbl_mul :: "real \<Rightarrow> real \<Rightarrow> real" where
  "dbl_mul a b = fl (a * b)"

definition dbl_div :: "real \<Rightarrow> real \<Rightarrow> real" where
  "dbl_div a b = fl (a / b)"

text \<open>
  Modelled from the spec: \<open>utils::M_4PI\<close> of the absent header utils/utils.h, as a
  double: \<open>4\<pi>\<close> written to 32 significant digits and rounded.
\<close>

definition M_4PI_dbl :: real where
  "M_4PI_dbl = fl 12.566370614359172953850573533118"

text \<open>The table \<open>a[]\<close> of the volume series: each decimal literal, rounded.\<close>

definition volume_coeffs_dbl :: "real list" where
  "volume_coeffs_dbl = map fl volume_coeffs"

text \<open>
  The polynomial \<open>a[0] + t*(a[1] + t*(a[2] + ... + t*(a[9] + t*a[10])...))\<close> with every
  product and sum rounded.
\<close>

definition series11_dbl :: "real list \<Rightarrow> real \<Rightarrow> real" where
  "series11_dbl a t =
     dbl_add (a ! 0) (dbl_mul t (dbl_add (a ! 1) (dbl_mul t (dbl_add (a ! 2)
     (dbl_mul t (dbl_add (a ! 3) (dbl_mul t (dbl_add (a ! 4) (dbl_mul t (dbl_add (a ! 5)
     (dbl_mul t (dbl_add (a ! 6) (dbl_mul t (dbl_add (a ! 7) (dbl_mul t (dbl_add (a ! 8)
     (dbl_mul t (dbl_add (a ! 9) (dbl_mul t (a ! 10))))))))))))))))))))"

text \<open>
  What a call does to its volume slot: it stores a value, or it leaves the slot alone,
  or it stores the result of the integration loop, which is not evaluated in double
  precision here.
\<close>

datatype dbl_slot = Stored real | Not_stored | By_integration

text \<open>
  \<open>area_volume\<close> in double precision, as far as slot \<open>av[1]\<close> is concerned: the mask
  tests, the closed form for \<open>omega == 0\<close>, the domain check against \<open>8./27\<close>, and the
  analytic approximation for \<open>t < 0.1\<close> with \<open>f = M_4PI/Omega2\<close> and
  \<open>av[1] = f*V/(3*Omega0)\<close>.
\<close>

definition area_volume_dbl :: "32 word \<Rightarrow> real \<Rightarrow> real \<Rightarrow> dbl_slot" where
  "area_volume_dbl choice Omega0 omega =
     (let b_area = (choice AND 1 = 1);
          b_volume = (choice AND 2 = 2)
      in if \<not> b_area \<and> \<not> b_volume then Not_stored
      else
        let Omega2 = dbl_mul Omega0 Omega0;
            Omega3 = dbl_mul Omega0 Omega2
        in if omega = 0 then
             (if b_volume then Stored (dbl_div M_4PI_dbl (dbl_mul 3 Omega3)) else Not_stored)
        else
          let t = dbl_div (dbl_mul omega omega) Omega3
          in if t > fl (8 / 27) then Not_stored
          else if t < fl 0.1 then
            let f = dbl_div M_4PI_dbl Omega2
            in if b_volume then
                 let V = series11_dbl volume_coeffs_dbl t
                 in Stored (dbl_div (dbl_mul f V) (dbl_mul 3 Omega0))
               else Not_stored
          else if b_volume then By_integration else Not_stored)"

text \<open>
  \<open>volume\<close> in double precision, as far as slot \<open>res[0]\<close> is concerned: the same tests,
  and the analytic approximation with \<open>f = M_4PI/(3*Omega3)\<close> and \<open>res[0] = f*Vol\<close>.
\<close>

definition volume_dbl :: "32 word \<Rightarrow> real \<Rightarrow> real \<Rightarrow> dbl_slot" where
  "volume_dbl choice Omega0 omega =
     (let b_Vol = (choice AND 1 = 1);
          b_dVoldOmega = (choice AND 2 = 2)
      in if \<not> b_Vol \<and> \<not> b_dVoldOmega then Not_stored
      else
        let Omega2 = dbl_mul Omega0 Omega0;
            Omega3 = dbl_mul Omega0 Omega2
        in if omega = 0 then
             let Vol = dbl_div M_4PI_dbl (dbl_mul 3 Omega3)
             in if b_Vol then Stored Vol else Not_stored
        else
          let t = dbl_div (dbl_mul omega omega) Omega3
          in if t > fl (8 / 27) then Not_stored
          else if t < fl 0.1 then
            let Vol = series11_dbl volume_coeffs_dbl t;
                f = dbl_div M_4PI_dbl (dbl_mul 3 Omega3)
            in if b_Vol then Stored (dbl_mul f Vol) else Not_stored
          else if b_Vol then By_integration else Not_stored)"

section \<open>Helper lemmas\<close>

subsection \<open>Guarded stores\<close>

lemma store_if_length: "length (store_if b i x a) = length a"
  by (simp add: store_if_def)

lemma store_pair_nth0:
  "a \<noteq> [] \<Longrightarrow> store_if b (Suc 0) y (store_if True 0 x a) ! 0 = x"
  by (simp add: store_if_def)

lemma store_pair_nth1:
  "Suc 0 < length a \<Longrightarrow> store_if True (Suc 0) y (store_if b 0 x a) ! Suc 0 = y"
  by (simp add: store_if_def)

subsection \<open>The branches of the two integrators\<close>

lemma regime_key:
  "omega * omega / (Omega0 * (Omega0 * Omega0)) = omega\<^sup>2 / (Omega0::real) ^ 3"
  by (simp add: power2_eq_square power3_eq_cube mult.assoc)

lemma area_volume_none:
  "choice AND 1 \<noteq> 1 \<Longrightarrow> choice AND 2 \<noteq> 2 \<Longrightarrow>
   area_volume av choice Omega0 omega = \<lparr>arr = av, cerr = []\<rparr>"
  by (simp add: area_volume_def)

lemma area_volume_sphere:
  "choice AND 1 = 1 \<or> choice AND 2 = 2 \<Longrightarrow>
   area_volume av choice Omega0 0 =
     \<lparr>arr = store_if (choice AND 2 = 2) 1 (M_4PI / (3 * (Omega0 * (Omega0 * Omega0))))
              (store_if (choice AND 1 = 1) 0 (M_4PI / (Omega0 * Omega0)) av),
      cerr = []\<rparr>"
  unfolding area_volume_def Let_def by (simp only: if_True simp_thms if_False) auto

lemma area_volume_fail:
  "choice AND 1 = 1 \<or> choice AND 2 = 2 \<Longrightarrow> omega \<noteq> 0 \<Longrightarrow>
   8 / 27 < omega * omega / (Omega0 * (Omega0 * Omega0)) \<Longrightarrow>
   area_volume av choice Omega0 omega = \<lparr>arr = av, cerr = [no_solution_msg]\<rparr>"
  unfolding area_volume_def Let_def by auto

lemma area_volume_series:
  "choice AND 1 = 1 \<or> choice AND 2 = 2 \<Longrightarrow> omega \<noteq> 0 \<Longrightarrow>
   t = omega * omega / (Omega0 * (Omega0 * Omega0)) \<Longrightarrow> \<not> 8 / 27 < t \<Longrightarrow> t < 1 / 10 \<Longrightarrow>
   area_volume av choice Omega0 omega =
     \<lparr>arr = av_series av (choice AND 1 = 1) (choice AND 2 = 2) Omega0 (Omega0 * Omega0) t,
      cerr = []\<rparr>"
  unfolding area_volume_def Let_def by auto

lemma area_volume_integrate:
  "choice AND 1 = 1 \<or> choice AND 2 = 2 \<Longrightarrow> omega \<noteq> 0 \<Longrightarrow>
   t = omega * omega / (Omega0 * (Omega0 * Omega0)) \<Longrightarrow> \<not> 8 / 27 < t \<Longrightarrow> \<not> t < 1 / 10 \<Longrightarrow>
   area_volume av choice Omega0 omega =
     \<lparr>arr = av_integrate av (choice AND 1 = 1) (choice AND 2 = 2) (Omega0 * Omega0)
              (Omega0 * (Omega0 * Omega0)) t,
      cerr = []\<rparr>"
  unfolding area_volume_def Let_def by auto

lemma volume_none:
  "choice AND 1 \<noteq> 1 \<Longrightarrow> choice AND 2 \<noteq> 2 \<Longrightarrow>
   volume res choice Omega0 omega = \<lparr>arr = res, cerr = []\<rparr>"
  by (simp add: volume_def)

lemma volume_sphere:
  "choice AND 1 = 1 \<or> choice AND 2 = 2 \<Longrightarrow>
   volume res choice Omega0 0 =
     \<lparr>arr = store_if (choice AND 2 = 2) 1
               (- 3 * (M_4PI / (3 * (Omega0 * (Omega0 * Omega0)))) / Omega0)
              (store_if (choice AND 1 = 1) 0 (M_4PI / (3 * (Omega0 * (Omega0 * Omega0)))) res),
      cerr = []\<rparr>"
  unfolding volume_def Let_def by auto

lemma volume_fail:
  "choice AND 1 = 1 \<or> choice AND 2 = 2 \<Longrightarrow> omega \<noteq> 0 \<Longrightarrow>
   8 / 27 < omega * omega / (Omega0 * (Omega0 * Omega0)) \<Longrightarrow>
   volume res choice Omega0 omega = \<lparr>arr = res, cerr = [no_solution_msg]\<rparr>"
  unfolding volume_def Let_def by auto

lemma volume_series:
  "choice AND 1 = 1 \<or> choice AND 2 = 2 \<Longrightarrow> omega \<noteq> 0 \<Longrightarrow>
   t = omega * omega / (Omega0 * (Omega0 * Omega0)) \<Longrightarrow> \<not> 8 / 27 < t \<Longrightarrow> t < 1 / 10 \<Longrightarrow>
   volume res choice Omega0 omega =
     \<lparr>arr = vol_series res (choice AND 1 = 1) (choice AND 2 = 2) Omega0
              (Omega0 * (Omega0 * Omega0)) t,
      cerr = []\<rparr>"
  unfolding volume_def Let_def by auto

lemma volume_integrate:
  "choice AND 1 = 1 \<or> choice AND 2 = 2 \<Longrightarrow> omega \<noteq> 0 \<Longrightarrow>
   t = omega * omega / (Omega0 * (Omega0 * Omega0)) \<Longrightarrow> \<not> 8 / 27 < t \<Longrightarrow> \<not> t < 1 / 10 \<Longrightarrow>
   volume res choice Omega0 omega =
     \<lparr>arr = vol_integrate res (choice AND 1 = 1) (choice AND 2 = 2) Omega0
              (Omega0 * (Omega0 * Omega0)) t,
      cerr = []\<rparr>"
  unfolding volume_def Let_def by auto

section \<open>The non-rotating sphere\<close>

text \<open>
  Claim C1. For every \<open>Omega0 > 0\<close> and \<open>omega = 0\<close>, \<open>area_volume\<close> stores the area
  \<open>4\<pi>/Omega0^2\<close> in slot 0 and the volume \<open>4\<pi>/(3*Omega0^3)\<close> in slot 1, and \<open>volume\<close>
  stores the volume \<open>4\<pi>/(3*Omega0^3)\<close> in slot 0 and the derivative \<open>-3*volume/Omega0\<close> in
  slot 1, each when its mask bit is set; nothing is written to \<open>std::cerr\<close>. The values
  are the closed forms themselves: neither a coefficient table nor the loop occurs in
  them.
\<close>

theorem sphere_closed_forms:
  assumes "0 < Omega0" and "2 \<le> length av" and "2 \<le> length res"
  shows "(choice AND 1 = 1 \<longrightarrow> arr (area_volume av choice Omega0 0) ! 0 = 4 * pi / Omega0\<^sup>2)
       \<and> (choice AND 2 = 2 \<longrightarrow> arr (area_volume av choice Omega0 0) ! 1 = 4 * pi / (3 * Omega0 ^ 3))
       \<and> (choice' AND 1 = 1 \<longrightarrow> arr (volume res choice' Omega0 0) ! 0 = 4 * pi / (3 * Omega0 ^ 3))
       \<and> (choice' AND 2 = 2 \<longrightarrow>
            arr (volume res choice' Omega0 0) ! 1 = - 3 * (4 * pi / (3 * Omega0 ^ 3)) / Omega0)
       \<and> cerr (area_volume av choice Omega0 0) = []
       \<and> cerr (volume res choice' Omega0 0) = []"
proof -
  have l0: "0 < length av" "1 < length av" "0 < length res" "1 < length res"
    using assms by auto
  have cube: "Omega0 * (Omega0 * Omega0) = Omega0 ^ 3" and sq: "Omega0 * Omega0 = Omega0\<^sup>2"
    by (simp_all add: power2_eq_square power3_eq_cube mult.assoc)
  have a0: "arr (area_volume av choice Omega0 0) ! 0 = 4 * pi / Omega0\<^sup>2" if "choice AND 1 = 1"
    using that l0 by (simp add: area_volume_sphere store_pair_nth0 M_4PI_def sq)
  have a1: "arr (area_volume av choice Omega0 0) ! 1 = 4 * pi / (3 * Omega0 ^ 3)"
    if "choice AND 2 = 2"
    using that l0 by (simp add: area_volume_sphere store_pair_nth1 M_4PI_def cube)
  have v0: "arr (volume res choice' Omega0 0) ! 0 = 4 * pi / (3 * Omega0 ^ 3)"
    if "choice' AND 1 = 1"
    using that l0 by (simp add: volume_sphere store_pair_nth0 M_4PI_def cube)
  have v1: "arr (volume res choice' Omega0 0) ! 1 = - 3 * (4 * pi / (3 * Omega0 ^ 3)) / Omega0"
    if "choice' AND 2 = 2"
    using that l0 by (simp add: volume_sphere store_pair_nth1 M_4PI_def cube)
  have ae: "cerr (area_volume av choice Omega0 0) = []"
    by (cases "choice AND 1 = 1 \<or> choice AND 2 = 2")
      (simp_all add: area_volume_sphere area_volume_none)
  have ve: "cerr (volume res choice' Omega0 0) = []"
    by (cases "choice' AND 1 = 1 \<or> choice' AND 2 = 2")
      (simp_all add: volume_sphere volume_none)
  from a0 a1 v0 v1 ae ve show ?thesis by blast
qed

theorem sphere_closed_forms_witness:
  "arr (area_volume [0, 0] 3 10 0) ! 0 = 4 * pi / 10\<^sup>2
   \<and> arr (area_volume [0, 0] 3 10 0) ! 1 = 4 * pi / (3 * 10 ^ 3)
   \<and> arr (volume [0, 0] 3 10 0) ! 0 = 4 * pi / (3 * 10 ^ 3)
   \<and> arr (volume [0, 0] 3 10 0) ! 1 = - 3 * (4 * pi / (3 * 10 ^ 3)) / 10"
  using sphere_closed_forms [of 10 "[0, 0]" "[0, 0]" 3 3]
  by simp

section \<open>The domain check\<close>

text \<open>
  Claim C2. For every \<open>Omega0 > 0\<close> and \<open>omega \<ge> 0\<close> with \<open>t = omega^2/Omega0^3 > 8/27\<close>,
  \<open>area_volume\<close> and \<open>volume\<close> return the caller's array as it was, whatever the mask, and
  a call whose mask requests at least one output writes the diagnostic to \<open>std::cerr\<close>
  and nothing else. (A mask requesting nothing leaves before the check, see C10.)
\<close>

theorem domain_failure_writes_nothing:
  assumes "0 < Omega0" and "0 \<le> omega" and "8 / 27 < omega\<^sup>2 / Omega0 ^ 3"
  shows "arr (area_volume av choice Omega0 omega) = av
       \<and> arr (volume res choice' Omega0 omega) = res
       \<and> (choice AND 1 = 1 \<or> choice AND 2 = 2 \<longrightarrow>
            cerr (area_volume av choice Omega0 omega) = [no_solution_msg])
       \<and> (choice' AND 1 = 1 \<or> choice' AND 2 = 2 \<longrightarrow>
            cerr (volume res choice' Omega0 omega) = [no_solution_msg])"
proof -
  have nz: "omega \<noteq> 0" using assms by auto
  have t: "8 / 27 < omega * omega / (Omega0 * (Omega0 * Omega0))"
    using assms(3) by (simp only: regime_key)
  have a: "area_volume av choice Omega0 omega = \<lparr>arr = av, cerr = [no_solution_msg]\<rparr>"
    if "choice AND 1 = 1 \<or> choice AND 2 = 2"
    using that nz t by (rule area_volume_fail)
  have v: "volume res choice' Omega0 omega = \<lparr>arr = res, cerr = [no_solution_msg]\<rparr>"
    if "choice' AND 1 = 1 \<or> choice' AND 2 = 2"
    using that nz t by (rule volume_fail)
  have a0: "arr (area_volume av choice Omega0 omega) = av"
    by (cases "choice AND 1 = 1 \<or> choice AND 2 = 2") (simp_all add: a area_volume_none)
  have v0: "arr (volume res choice' Omega0 omega) = res"
    by (cases "choice' AND 1 = 1 \<or> choice' AND 2 = 2") (simp_all add: v volume_none)
  from a v a0 v0 show ?thesis by simp
qed

theorem domain_failure_writes_nothing_witness:
  "arr (area_volume [5, 7] 3 1 1) = [5, 7]
   \<and> arr (volume [5, 7] 3 1 1) = [5, 7]
   \<and> cerr (area_volume [5, 7] 3 1 1) = [no_solution_msg]
   \<and> cerr (volume [5, 7] 3 1 1) = [no_solution_msg]"
  using domain_failure_writes_nothing [of 1 1 "[5, 7]" 3 "[5, 7]" 3]
  by simp



section \<open>The output mask as a frame\<close>

lemma store_pair_id: "store_if b2 1 (a ! 1) (store_if b1 0 (a ! 0) a) = a"
  by (simp add: store_if_def)

lemma store_pair_frame:
  "\<not> (i = 0 \<and> b1) \<Longrightarrow> \<not> (i = 1 \<and> b2) \<Longrightarrow>
   store_if b2 1 y (store_if b1 0 x a) ! i = a ! i"
  by (auto simp add: store_if_def nth_list_update)

lemma av_series_shape:
  "\<exists>x y. av_series av b1 b2 Omega0 Omega2 t = store_if b2 1 y (store_if b1 0 x av)"
  unfolding av_series_def Let_def by blast

lemma av_integrate_shape:
  "\<exists>x y. av_integrate av b1 b2 Omega2 Omega3 t = store_if b2 1 y (store_if b1 0 x av)"
  unfolding av_integrate_def Let_def
  by (cases "av_loop m_steps b1 b2 t (1 / real m_steps) (1, 0, 0, 0)") auto

lemma vol_series_shape:
  "\<exists>x y. vol_series res b1 b2 Omega0 Omega3 t = store_if b2 1 y (store_if b1 0 x res)"
  unfolding vol_series_def Let_def by blast

lemma vol_integrate_shape:
  "\<exists>x y. vol_integrate res b1 b2 Omega0 Omega3 t = store_if b2 1 y (store_if b1 0 x res)"
  unfolding vol_integrate_def Let_def
  by (cases "vol_loop m_steps b1 b2 t (1 / real m_steps) (1, 0, 0, 0)") auto

lemma area_volume_shape:
  "\<exists>x y. arr (area_volume av choice Omega0 omega) =
     store_if (choice AND 2 = 2) 1 y (store_if (choice AND 1 = 1) 0 x av)"
proof -
  let ?t = "omega * omega / (Omega0 * (Omega0 * Omega0))"
  consider (none) "choice AND 1 \<noteq> 1" "choice AND 2 \<noteq> 2"
    | (sphere) "choice AND 1 = 1 \<or> choice AND 2 = 2" "omega = 0"
    | (fail) "choice AND 1 = 1 \<or> choice AND 2 = 2" "omega \<noteq> 0" "8 / 27 < ?t"
    | (series) "choice AND 1 = 1 \<or> choice AND 2 = 2" "omega \<noteq> 0" "\<not> 8 / 27 < ?t" "?t < 1 / 10"
    | (integrate) "choice AND 1 = 1 \<or> choice AND 2 = 2" "omega \<noteq> 0" "\<not> 8 / 27 < ?t"
        "\<not> ?t < 1 / 10"
    by blast
  then show ?thesis
  proof cases
    case none
    then have "arr (area_volume av choice Omega0 omega) = av"
      by (simp add: area_volume_none)
    then show ?thesis using store_pair_id [of _ av] by metis
  next
    case sphere
    then show ?thesis by (simp add: area_volume_sphere) blast
  next
    case fail
    then have "arr (area_volume av choice Omega0 omega) = av"
      by (simp add: area_volume_fail)
    then show ?thesis using store_pair_id [of _ av] by metis
  next
    case series
    then show ?thesis
      using area_volume_series [OF series(1,2) refl series(3,4)] av_series_shape by simp
  next
    case integrate
    then show ?thesis
      using area_volume_integrate [OF integrate(1,2) refl integrate(3,4)] av_integrate_shape
      by simp
  qed
qed

lemma volume_shape:
  "\<exists>x y. arr (volume res choice Omega0 omega) =
     store_if (choice AND 2 = 2) 1 y (store_if (choice AND 1 = 1) 0 x res)"
proof -
  let ?t = "omega * omega / (Omega0 * (Omega0 * Omega0))"
  consider (none) "choice AND 1 \<noteq> 1" "choice AND 2 \<noteq> 2"
    | (sphere) "choice AND 1 = 1 \<or> choice AND 2 = 2" "omega = 0"
    | (fail) "choice AND 1 = 1 \<or> choice AND 2 = 2" "omega \<noteq> 0" "8 / 27 < ?t"
    | (series) "choice AND 1 = 1 \<or> choice AND 2 = 2" "omega \<noteq> 0" "\<not> 8 / 27 < ?t" "?t < 1 / 10"
    | (integrate) "choice AND 1 = 1 \<or> choice AND 2 = 2" "omega \<noteq> 0" "\<not> 8 / 27 < ?t"
        "\<not> ?t < 1 / 10"
    by blast
  then show ?thesis
  proof cases
    case none
    then have "arr (volume res choice Omega0 omega) = res"
      by (simp add: volume_none)
    then show ?thesis using store_pair_id [of _ res] by metis
  next
    case sphere
    then show ?thesis by (simp add: volume_sphere) blast
  next
    case fail
    then have "arr (volume res choice Omega0 omega) = res"
      by (simp add: volume_fail)
    then show ?thesis using store_pair_id [of _ res] by metis
  next
    case series
    then show ?thesis
      using volume_series [OF series(1,2) refl series(3,4)] vol_series_shape by simp
  next
    case integrate
    then show ?thesis
      using volume_integrate [OF integrate(1,2) refl integrate(3,4)] vol_integrate_shape
      by simp
  qed
qed

text \<open>
  Claim C10. For every \<open>Omega0\<close>, \<open>omega\<close> and mask, \<open>area_volume\<close> and \<open>volume\<close> leave
  every slot \<open>i\<close> of the output array as the caller passed it, unless \<open>i\<close> is slot 0 with
  bit 1 of the mask set or slot 1 with bit 2 set; the array keeps its length; and when
  neither bit is set the call returns the array unchanged and reports nothing.
\<close>

theorem only_selected_slots_are_written:
  "(\<not> (i = 0 \<and> choice AND 1 = 1) \<and> \<not> (i = 1 \<and> choice AND 2 = 2) \<longrightarrow>
      arr (area_volume av choice Omega0 omega) ! i = av ! i)
   \<and> length (arr (area_volume av choice Omega0 omega)) = length av
   \<and> (choice AND 1 \<noteq> 1 \<and> choice AND 2 \<noteq> 2 \<longrightarrow>
        area_volume av choice Omega0 omega = \<lparr>arr = av, cerr = []\<rparr>)
   \<and> (\<not> (i = 0 \<and> choice' AND 1 = 1) \<and> \<not> (i = 1 \<and> choice' AND 2 = 2) \<longrightarrow>
        arr (volume res choice' Omega0 omega) ! i = res ! i)
   \<and> length (arr (volume res choice' Omega0 omega)) = length res
   \<and> (choice' AND 1 \<noteq> 1 \<and> choice' AND 2 \<noteq> 2 \<longrightarrow>
        volume res choice' Omega0 omega = \<lparr>arr = res, cerr = []\<rparr>)"
proof -
  obtain x y where a: "arr (area_volume av choice Omega0 omega) =
      store_if (choice AND 2 = 2) 1 y (store_if (choice AND 1 = 1) 0 x av)"
    using area_volume_shape by blast
  obtain x' y' where b: "arr (volume res choice' Omega0 omega) =
      store_if (choice' AND 2 = 2) 1 y' (store_if (choice' AND 1 = 1) 0 x' res)"
    using volume_shape by blast
  have f1: "arr (area_volume av choice Omega0 omega) ! i = av ! i"
    if "\<not> (i = 0 \<and> choice AND 1 = 1) \<and> \<not> (i = 1 \<and> choice AND 2 = 2)"
    unfolding a using that by (intro store_pair_frame) blast+
  have f2: "arr (volume res choice' Omega0 omega) ! i = res ! i"
    if "\<not> (i = 0 \<and> choice' AND 1 = 1) \<and> \<not> (i = 1 \<and> choice' AND 2 = 2)"
    unfolding b using that by (intro store_pair_frame) blast+
  have l1: "length (arr (area_volume av choice Omega0 omega)) = length av"
    unfolding a by (simp only: store_if_length)
  have l2: "length (arr (volume res choice' Omega0 omega)) = length res"
    unfolding b by (simp only: store_if_length)
  have n1: "area_volume av choice Omega0 omega = \<lparr>arr = av, cerr = []\<rparr>"
    if "choice AND 1 \<noteq> 1 \<and> choice AND 2 \<noteq> 2"
    using that by (simp add: area_volume_none)
  have n2: "volume res choice' Omega0 omega = \<lparr>arr = res, cerr = []\<rparr>"
    if "choice' AND 1 \<noteq> 1 \<and> choice' AND 2 \<noteq> 2"
    using that by (simp add: volume_none)
  from f1 f2 l1 l2 n1 n2 show ?thesis by blast
qed

theorem only_selected_slots_are_written_witness:
  "arr (area_volume [5, 7] 1 6 8) ! 1 = 7
   \<and> arr (volume [5, 7] 2 6 8) ! 0 = 5
   \<and> area_volume [5, 7] 4 6 8 = \<lparr>arr = [5, 7], cerr = []\<rparr>
   \<and> volume [5, 7] 8 6 8 = \<lparr>arr = [5, 7], cerr = []\<rparr>"
  using only_selected_slots_are_written [of 1 1 "[5, 7]" 6 8 2 "[5, 7]"]
    only_selected_slots_are_written [of 0 4 "[5, 7]" 6 8 2 "[5, 7]"]
    only_selected_slots_are_written [of 0 4 "[5, 7]" 6 8 8 "[5, 7]"]
  by simp

section \<open>Rounding to double\<close>

text \<open>
  \<open>binade\<close> finds the exponent, \<open>fl x\<close> is within half a unit in the last place of \<open>x\<close>,
  and a multiple of the unit that is closer to \<open>x\<close> than half a unit is \<open>fl x\<close>.
\<close>

lemma two_powi_pos: "0 < (2::real) powi k"
  by simp

lemma two_powi_Suc: "(2::real) powi (k + 1) = 2 * 2 powi k"
  by (simp add: power_int_add)

lemma two_powi_unique:
  fixes a :: real
  assumes "2 powi e \<le> a" "a < 2 powi (e + 1)" "2 powi e' \<le> a" "a < 2 powi (e' + 1)"
  shows "e = e'"
proof (rule ccontr)
  assume "e \<noteq> e'"
  then consider "e + 1 \<le> e'" | "e' + 1 \<le> e" by linarith
  then show False
  proof cases
    case 1
    then have "(2::real) powi (e + 1) \<le> 2 powi e'" by (intro power_int_increasing) simp_all
    with assms show False by linarith
  next
    case 2
    then have "(2::real) powi (e' + 1) \<le> 2 powi e" by (intro power_int_increasing) simp_all
    with assms show False by linarith
  qed
qed

lemma bitlen_bounds_real:
  assumes "0 < n"
  shows "(2::real) powi (bitlen n - 1) \<le> of_int n" and "of_int n + 1 \<le> (2::real) powi bitlen n"
proof -
  from bitlen_bounds [OF assms]
  have lo: "2 ^ nat (bitlen n - 1) \<le> n" and hi: "n < 2 ^ nat (bitlen n)" by simp_all
  have pos: "1 \<le> bitlen n" using assms by (simp add: bitlen_alt_def)
  have "(2::real) powi (bitlen n - 1) = of_int (2 ^ nat (bitlen n - 1))"
    using pos by (simp add: power_int_nonneg_exp)
  also have "\<dots> \<le> of_int n" using lo by (simp only: of_int_le_iff)
  finally show "(2::real) powi (bitlen n - 1) \<le> of_int n" .
  from hi have "n + 1 \<le> 2 ^ nat (bitlen n)" by simp
  then have "(of_int (n + 1) :: real) \<le> of_int (2 ^ nat (bitlen n))"
    by (simp only: of_int_le_iff)
  also have "(of_int (2 ^ nat (bitlen n)) :: real) = 2 powi bitlen n"
    using pos by (simp add: power_int_nonneg_exp)
  finally show "of_int n + 1 \<le> (2::real) powi bitlen n" by simp
qed

lemma binade_bounds:
  assumes "x \<noteq> 0"
  shows "2 powi binade x \<le> \<bar>x\<bar>" and "\<bar>x\<bar> < 2 powi (binade x + 1)"
proof -
  define a where "a = \<bar>x\<bar>"
  have a: "0 < a" using assms by (simp add: a_def)
  have "2 powi binade x \<le> a \<and> a < 2 powi (binade x + 1)"
  proof (cases "1 \<le> a")
    case True
    define n where "n = \<lfloor>a\<rfloor>"
    have n: "0 < n" using True by (simp add: n_def)
    have na: "of_int n \<le> a" "a < of_int n + 1" by (simp_all add: n_def)
    have lo: "2 powi (bitlen n - 1) \<le> a"
      using bitlen_bounds_real(1) [OF n] na(1) by linarith
    have hi: "a < 2 powi (bitlen n - 1 + 1)"
      using bitlen_bounds_real(2) [OF n] na(2) by simp
    have "binade x = bitlen n - 1"
      using True hi by (simp add: binade_def a_def [symmetric] n_def [symmetric] Let_def)
    with lo hi show ?thesis by simp
  next
    case False
    define y where "y = 1 / a"
    have y: "1 < y" using False a by (simp add: y_def)
    define n where "n = \<lfloor>y\<rfloor>"
    have n: "0 < n" using y by (simp add: n_def)
    have ny: "of_int n \<le> y" "y < of_int n + 1" by (simp_all add: n_def)
    have ay: "a = 1 / y" using a by (simp add: y_def)
    have ylo: "2 powi (bitlen n - 1) \<le> y"
      using bitlen_bounds_real(1) [OF n] ny(1) by linarith
    have yhi: "y < 2 powi bitlen n"
      using bitlen_bounds_real(2) [OF n] ny(2) by linarith
    have lo: "2 powi (- bitlen n) < a"
    proof -
      have "1 / 2 powi bitlen n < 1 / y"
        using yhi y by (intro divide_strict_left_mono) simp_all
      then show ?thesis by (simp add: ay power_int_minus_divide)
    qed
    have hi: "a \<le> 2 powi (- bitlen n + 1)"
    proof -
      have "1 / y \<le> 1 / 2 powi (bitlen n - 1)"
        using ylo y by (intro divide_left_mono mult_pos_pos) simp_all
      moreover have "1 / (2::real) powi (bitlen n - 1) = 2 powi (- (bitlen n - 1))"
        by (simp only: power_int_minus_divide)
      ultimately show ?thesis by (simp add: ay)
    qed
    have b: "binade x = (if 2 powi (- bitlen n + 1) \<le> a then - bitlen n + 1 else - bitlen n)"
      using False by (simp add: binade_def a_def [symmetric] y_def [symmetric]
          n_def [symmetric] Let_def)
    show ?thesis
    proof (cases "2 powi (- bitlen n + 1) \<le> a")
      case True
      then have eq: "a = 2 powi (- bitlen n + 1)" using hi by simp
      have "(2::real) powi (- bitlen n + 1) < 2 powi (- bitlen n + 1 + 1)"
        by (intro power_int_strict_increasing) simp_all
      with True b eq show ?thesis by simp
    next
      case False
      with b lo show ?thesis by simp
    qed
  qed
  then show "2 powi binade x \<le> \<bar>x\<bar>" and "\<bar>x\<bar> < 2 powi (binade x + 1)"
    by (simp_all add: a_def)
qed

lemma binade_eqI:
  assumes "2 powi e \<le> \<bar>x\<bar>" and "\<bar>x\<bar> < 2 powi (e + 1)"
  shows "binade x = e"
proof -
  have "0 < \<bar>x\<bar>" using assms(1) two_powi_pos [of e] by linarith
  then have "x \<noteq> 0" by simp
  from binade_bounds [OF this] assms show ?thesis
    by (intro two_powi_unique [of "binade x" "\<bar>x\<bar>" e])
qed

lemma nearest_even_eqI:
  assumes "\<bar>of_int m - y\<bar> < 1 / 2"
  shows "nearest_even y = m"
proof -
  define n where "n = \<lfloor>y\<rfloor>"
  have ny: "of_int n \<le> y" "y < of_int n + 1" by (simp_all add: n_def)
  consider (lt) "y - of_int n < 1 / 2" | (gt) "1 / 2 < y - of_int n" | (eq) "y - of_int n = 1 / 2"
    by linarith
  then show ?thesis
  proof cases
    case lt
    have "of_int m < (of_int n :: real) + 1" "(of_int n :: real) - 1 < of_int m"
      using assms lt ny by linarith+
    then have "m < n + 1" "n - 1 < m" by linarith+
    then have "m = n" by simp
    with lt show ?thesis by (simp add: nearest_even_def n_def [symmetric] Let_def)
  next
    case gt
    have "of_int m < (of_int n :: real) + 2" "(of_int n :: real) < of_int m"
      using assms gt ny by linarith+
    then have "m < n + 2" "n < m" by linarith+
    then have "m = n + 1" by simp
    with gt show ?thesis by (simp add: nearest_even_def n_def [symmetric] Let_def)
  next
    case eq
    have "of_int m < (of_int n :: real) + 1" "(of_int n :: real) < of_int m"
      using assms eq by linarith+
    then have "m < n + 1" "n < m" by linarith+
    then show ?thesis by simp
  qed
qed

lemma nearest_even_error: "\<bar>of_int (nearest_even y) - y\<bar> \<le> 1 / 2"
proof -
  have "of_int \<lfloor>y\<rfloor> \<le> y" "y < of_int \<lfloor>y\<rfloor> + 1" by simp_all
  then show ?thesis
    by (auto simp add: nearest_even_def Let_def)
qed

lemma fl_eqI:
  assumes "2 powi e \<le> \<bar>x\<bar>" and "\<bar>x\<bar> < 2 powi (e + 1)"
    and "\<bar>of_int m * 2 powi (e - 52) - x\<bar> < 2 powi (e - 53)"
  shows "fl x = of_int m * 2 powi (e - 52)"
proof -
  define u :: real where "u = 2 powi (e - 52)"
  have u: "0 < u" by (simp add: u_def)
  have half: "2 powi (e - 53) = u / 2"
    unfolding u_def by (simp add: power_int_diff)
  have "0 < \<bar>x\<bar>" using assms(1) two_powi_pos [of e] by linarith
  then have x: "x \<noteq> 0" by simp
  have b: "binade x = e" using assms(1,2) by (rule binade_eqI)
  have "\<bar>of_int m - x / u\<bar> = \<bar>of_int m * u - x\<bar> / u"
    using u by (simp add: field_simps abs_mult [symmetric] abs_divide)
  also have "\<dots> < (u / 2) / u"
    using assms(3) u unfolding half u_def [symmetric] by (intro divide_strict_right_mono)
  finally have "\<bar>of_int m - x / u\<bar> < 1 / 2" using u by simp
  then have "nearest_even (x / u) = m" by (rule nearest_even_eqI)
  then show ?thesis
    using x by (simp add: fl_def b u_def [symmetric] Let_def)
qed

lemma fl_error:
  assumes "x \<noteq> 0"
  shows "\<bar>fl x - x\<bar> \<le> 2 powi (binade x - 53)"
proof -
  define u :: real where "u = 2 powi (binade x - 52)"
  have u: "0 < u" by (simp add: u_def)
  have half: "2 powi (binade x - 53) = u / 2"
    unfolding u_def by (simp add: power_int_diff)
  have "\<bar>fl x - x\<bar> = \<bar>of_int (nearest_even (x / u)) - x / u\<bar> * u"
    using assms u by (simp add: fl_def u_def [symmetric] Let_def abs_mult [symmetric]
        field_simps)
  also have "\<dots> \<le> 1 / 2 * u"
    using nearest_even_error [of "x / u"] u by (intro mult_right_mono) simp_all
  finally show ?thesis by (simp add: half)
qed

lemmas dbl_eval = fl_def binade_def nearest_even_def dbl_add_def dbl_mul_def dbl_div_def
  Let_def compute_bitlen

lemma M_4PI_dbl_value: "M_4PI_dbl = 884279719003555 / 70368744177664"
  by (simp add: dbl_eval M_4PI_dbl_def)

lemma volume_coeffs_dbl_value:
  "volume_coeffs_dbl =
     [1, 1, 3602879701896397 / 2251799813685248, 7077085128725065 / 2251799813685248,
      1951559838527215 / 281474976710656, 1160018085837855 / 70368744177664,
      5812837880681999 / 140737488355328, 7569511681388103 / 70368744177664,
      5077533243823445 / 17592186044416, 25377 / 32, 4904066031560677 / 2199023255552]"
  by (simp add: dbl_eval volume_coeffs_dbl_def volume_coeffs_def)

lemma series11_dbl_value:
  "series11_dbl volume_coeffs_dbl (1152921504606847 / 144115188075855872)
     = 2270048485153217 / 2251799813685248"
  unfolding volume_coeffs_dbl_value
  by (simp add: series11_dbl_def dbl_eval)

section \<open>The two integrators compute the same volume\<close>

lemma body_agree:
  "\<exists>v' s' A' V' D'.
     av_body b_area True t dv (v, s, A, V) = (v', s', A', V')
     \<and> vol_body True b_dVoldOmega t dv (v, s, V, D) = (v', s', V', D')"
  unfolding av_body_def vol_body_def Let_def prod.case
  by (simp only: if_True mult.assoc prod.inject simp_thms ex_simps) blast

lemma loop_agree:
  "\<exists>v' s' A' V' D'.
     av_loop n b_area True t dv (v, s, A, V) = (v', s', A', V')
     \<and> vol_loop n True b_dVoldOmega t dv (v, s, V, D) = (v', s', V', D')"
proof (induction n arbitrary: v s A V D)
  case 0
  show ?case by simp
next
  case (Suc n)
  obtain v1 s1 A1 V1 D1 where
    step: "av_body b_area True t dv (v, s, A, V) = (v1, s1, A1, V1)"
      "vol_body True b_dVoldOmega t dv (v, s, V, D) = (v1, s1, V1, D1)"
    using body_agree by blast
  show ?case
    unfolding av_loop.simps vol_loop.simps step by (rule Suc.IH)
qed

lemma integrate_agree:
  assumes "Suc 0 < length av" and "res \<noteq> []"
  shows "av_integrate av b_area True Omega2 Omega3 t ! 1
       = vol_integrate res True b_dVoldOmega Omega0 Omega3 t ! 0"
proof -
  obtain v' s' A' V' D' where
    l: "av_loop m_steps b_area True t (1 / real m_steps) (1, 0, 0, 0) = (v', s', A', V')"
      "vol_loop m_steps True b_dVoldOmega t (1 / real m_steps) (1, 0, 0, 0) = (v', s', V', D')"
    using loop_agree by blast
  show ?thesis
    unfolding av_integrate_def vol_integrate_def Let_def l prod.case
    using assms by (simp add: store_pair_nth0 store_pair_nth1)
qed

lemma series_agree:
  assumes "Suc 0 < length av" and "res \<noteq> []"
  shows "av_series av b_area True Omega0 (Omega0 * Omega0) t ! 1
       = vol_series res True b_dVoldOmega Omega0 (Omega0 * (Omega0 * Omega0)) t ! 0"
  unfolding av_series_def vol_series_def Let_def
  using assms by (simp add: store_pair_nth0 store_pair_nth1)

text \<open>
  Claim C5, amended. For every \<open>Omega0 > 0\<close> and \<open>omega \<ge> 0\<close> with
  \<open>t = omega^2/Omega0^3 \<le> 8/27\<close>, the two functions compute the same expression for the
  volume: evaluated in exact real arithmetic, the volume that \<open>area_volume\<close> stores in
  slot 1 (bit 2 of its mask set) is the volume that \<open>volume\<close> stores in slot 0 (bit 1 of
  its mask set), whatever the other bit of either mask. In the closed form and in the
  series the two prefactors are the same number; in the integration both loops advance
  \<open>v\<close> and \<open>s\<close> alike and add the same increments to the volume accumulator, and both
  scale it by \<open>M_2PI/Omega0^3\<close>.
\<close>

theorem integrators_agree_on_volume:
  assumes "0 < Omega0" and "0 \<le> omega" and "omega\<^sup>2 / Omega0 ^ 3 \<le> 8 / 27"
    and "choice AND 2 = 2" and "choice' AND 1 = 1"
    and "2 \<le> length av" and "1 \<le> length res"
  shows "arr (area_volume av choice Omega0 omega) ! 1 = arr (volume res choice' Omega0 omega) ! 0"
proof -
  let ?t = "omega * omega / (Omega0 * (Omega0 * Omega0))"
  have len: "Suc 0 < length av" "res \<noteq> []" using assms(6,7) by auto
  have c: "choice AND 1 = 1 \<or> choice AND 2 = 2" "choice' AND 1 = 1 \<or> choice' AND 2 = 2"
    using assms(4,5) by simp_all
  have t: "\<not> 8 / 27 < ?t" using assms(3) by (simp only: regime_key not_less)
  show ?thesis
  proof (cases "omega = 0")
    case True
    show ?thesis
      unfolding True using c len assms(4,5)
      by (simp add: area_volume_sphere volume_sphere store_pair_nth0 store_pair_nth1)
  next
    case nz: False
    show ?thesis
    proof (cases "?t < 1 / 10")
      case True
      show ?thesis
        using area_volume_series [OF c(1) nz refl t True, of av]
          volume_series [OF c(2) nz refl t True, of res]
          series_agree [OF len] assms(4,5)
        by simp
    next
      case False
      show ?thesis
        using area_volume_integrate [OF c(1) nz refl t False, of av]
          volume_integrate [OF c(2) nz refl t False, of res]
          integrate_agree [OF len] assms(4,5)
        by simp
    qed
  qed
qed

theorem integrators_agree_on_volume_witness:
  "arr (area_volume [0, 0] 3 2 1) ! 1 = arr (volume [0, 0] 3 2 1) ! 0"
  using integrators_agree_on_volume [of 2 1 3 3 "[0, 0]" "[0, 0]"]
  by simp

text \<open>
  The claim as stated, an equality of the two values the program stores, fails in
  double precision. At \<open>Omega0 = 5\<close>, \<open>omega = 1\<close> both calls take the analytic
  approximation (\<open>t\<close> is the double next to \<open>1/125\<close>); \<open>area_volume\<close> stores
  \<open>2434241755903995 / 2^56\<close>, printed \<open>0.033781890561357317\<close>, and \<open>volume\<close> stores
  \<open>4868483511807989 / 2^57\<close>, printed \<open>0.03378189056135731\<close>: one unit in the last place
  apart, since \<open>(M_4PI/Omega2)*V/(3*Omega0)\<close> and \<open>(M_4PI/(3*Omega3))*V\<close> round differently.
\<close>

theorem doubles_disagree_on_volume:
  "(0::real) < 5 \<and> (0::real) \<le> 1 \<and> (1::real)\<^sup>2 / 5 ^ 3 \<le> 8 / 27
   \<and> area_volume_dbl 3 5 1 = Stored (2434241755903995 / 72057594037927936)
   \<and> volume_dbl 3 5 1 = Stored (4868483511807989 / 144115188075855872)
   \<and> area_volume_dbl 3 5 1 \<noteq> volume_dbl 3 5 1"
proof -
  have t: "dbl_div (dbl_mul 1 1) (dbl_mul 5 (dbl_mul 5 5))
      = 1152921504606847 / 144115188075855872"
    by (simp add: dbl_eval)
  have lo: "fl (8 / 27) = 667199944795629 / 2251799813685248"
    and hi: "fl 0.1 = 3602879701896397 / 36028797018963968"
    by (simp_all add: dbl_eval)
  have a: "area_volume_dbl 3 5 1 = Stored (2434241755903995 / 72057594037927936)"
    unfolding area_volume_dbl_def Let_def t lo hi series11_dbl_value M_4PI_dbl_value
    by (simp add: dbl_eval)
  have b: "volume_dbl 3 5 1 = Stored (4868483511807989 / 144115188075855872)"
    unfolding volume_dbl_def Let_def t lo hi series11_dbl_value M_4PI_dbl_value
    by (simp add: dbl_eval)
  show ?thesis unfolding a b by simp
qed

section \<open>The derivative series\<close>

lemma upt_1_11: "[1..<11] = [1, 2, 3, 4, 5, 6, 7, 8, 9, 10::nat]"
  by (simp add: upt_rec)

lemma series11_volume_horner: "series11 volume_coeffs t = horner volume_coeffs t"
  by (simp add: series11_def volume_coeffs_def)

lemma termwise_derivative_volume:
  "termwise_derivative volume_coeffs =
     [1 * volume_coeffs ! 1, 2 * volume_coeffs ! 2, 3 * volume_coeffs ! 3,
      4 * volume_coeffs ! 4, 5 * volume_coeffs ! 5, 6 * volume_coeffs ! 6,
      7 * volume_coeffs ! 7, 8 * volume_coeffs ! 8, 9 * volume_coeffs ! 9,
      10 * volume_coeffs ! 10]"
proof -
  have "length volume_coeffs = 11" by (simp add: volume_coeffs_def)
  then show ?thesis
    unfolding termwise_derivative_def by (simp only: upt_1_11 list.map) simp
qed

lemma dseries11_volume_horner:
  "dseries11 volume_coeffs t = horner (termwise_derivative volume_coeffs) t"
  unfolding termwise_derivative_volume dseries11_def
  by (simp add: mult.assoc)

lemma horner_sum: "horner a t = (\<Sum>k<length a. a ! k * t ^ k)"
proof (induction a)
  case Nil
  show ?case by simp
next
  case (Cons c cs)
  have "(\<Sum>k<Suc (length cs). (c # cs) ! k * t ^ k)
      = (c # cs) ! 0 * t ^ 0 + (\<Sum>k<length cs. (c # cs) ! Suc k * t ^ Suc k)"
    by (rule sum.lessThan_Suc_shift)
  also have "\<dots> = c + (\<Sum>k<length cs. t * (cs ! k * t ^ k))"
    by (simp add: mult_ac)
  also have "\<dots> = c + t * (\<Sum>k<length cs. cs ! k * t ^ k)"
    by (simp only: sum_distrib_left)
  finally show ?case using Cons.IH by simp
qed

lemma termwise_derivative_sum:
  "horner (termwise_derivative a) t = (\<Sum>k<length a. a ! k * (real k * t ^ (k - 1)))"
proof (cases "length a")
  case 0
  then show ?thesis by (simp add: termwise_derivative_def)
next
  case (Suc n)
  have len: "length (termwise_derivative a) = n"
    by (simp add: termwise_derivative_def Suc)
  have nth: "termwise_derivative a ! k = real (Suc k) * a ! Suc k" if "k < n" for k
    using that by (simp add: termwise_derivative_def Suc del: upt_Suc)
  have "horner (termwise_derivative a) t = (\<Sum>k<n. termwise_derivative a ! k * t ^ k)"
    by (simp only: horner_sum len)
  also have "\<dots> = (\<Sum>k<n. a ! Suc k * (real (Suc k) * t ^ (Suc k - 1)))"
    by (rule sum.cong) (simp_all add: nth)
  also have "\<dots> = a ! 0 * (real 0 * t ^ (0 - 1))
      + (\<Sum>k<n. a ! Suc k * (real (Suc k) * t ^ (Suc k - 1)))"
    by simp
  also have "\<dots> = (\<Sum>k<Suc n. a ! k * (real k * t ^ (k - 1)))"
    by (rule sum.lessThan_Suc_shift [symmetric])
  finally show ?thesis by (simp only: Suc)
qed

lemma horner_has_derivative:
  "((\<lambda>x. horner a x) has_real_derivative horner (termwise_derivative a) t) (at t)"
proof -
  have eq: "horner a = (\<lambda>x. \<Sum>k<length a. a ! k * x ^ k)"
    by (rule ext) (rule horner_sum)
  have "((\<lambda>x. \<Sum>k<length a. a ! k * x ^ k) has_real_derivative
          (\<Sum>k<length a. a ! k * (real k * t ^ (k - 1)))) (at t)"
    by (auto intro!: derivative_eq_intros simp add: mult_ac)
  then show ?thesis
    unfolding eq termwise_derivative_sum .
qed

lemma inverse_cube_derivative:
  fixes w W :: real
  assumes "W \<noteq> 0"
  shows "((\<lambda>x. w / x ^ 3) has_real_derivative - 3 * (w / W ^ 3) / W) (at W)"
  using assms
  by (auto intro!: derivative_eq_intros simp add: power3_eq_cube power2_eq_square field_simps)

lemma prefactor_chain_rule:
  fixes w W c d :: real
  assumes P: "(P has_real_derivative d) (at (w / W ^ 3))" and W: "W \<noteq> 0"
  shows "((\<lambda>x. c / x ^ 3 * P (w / x ^ 3)) has_real_derivative
           - 3 * (c / W ^ 3) * (P (w / W ^ 3) + w / W ^ 3 * d) / W) (at W)"
proof -
  have t: "((\<lambda>x. w / x ^ 3) has_real_derivative - 3 * (w / W ^ 3) / W) (at W)"
    by (rule inverse_cube_derivative [OF W])
  have f: "((\<lambda>x. c / x ^ 3) has_real_derivative - 3 * (c / W ^ 3) / W) (at W)"
    by (rule inverse_cube_derivative [OF W])
  have "((\<lambda>x. P (w / x ^ 3)) has_real_derivative d * (- 3 * (w / W ^ 3) / W)) (at W)"
    by (rule DERIV_chain2 [OF P t])
  from DERIV_mult [OF f this]
  have "((\<lambda>x. c / x ^ 3 * P (w / x ^ 3)) has_real_derivative
          (- 3 * (c / W ^ 3) / W * P (w / W ^ 3)
            + d * (- 3 * (w / W ^ 3) / W) * (c / W ^ 3))) (at W)" .
  moreover have "- 3 * (c / W ^ 3) / W * p + d * (- 3 * (w / W ^ 3) / W) * (c / W ^ 3)
      = - 3 * (c / W ^ 3) * (p + w / W ^ 3 * d) / W" for p
    using W by (simp add: field_simps)
  ultimately show ?thesis by simp
qed

text \<open>
  Claim C6. For every \<open>Omega0 > 0\<close> and \<open>omega > 0\<close> with \<open>0 < t = omega^2/Omega0^3 < 0.1\<close>, and
  bit 2 of the mask set, the derivative that \<open>volume\<close> stores in slot 1 is
  \<open>-3*f*(V(t) + t*V'(t))/Omega0\<close> with \<open>f = 4\<pi>/(3*Omega0^3)\<close>, where \<open>V\<close> is the Horner
  evaluation of the 11 volume coefficients and \<open>V'\<close> that of their term-by-term
  derivative. \<open>V'\<close> is the derivative of \<open>V\<close> at \<open>t\<close>, and the stored value is the derivative
  with respect to \<open>Omega0\<close> of the series volume \<open>4\<pi>/(3*W^3) * V(omega^2/W^3)\<close> at
  \<open>W = Omega0\<close>: the chain rule.
\<close>

theorem series_derivative_is_termwise:
  fixes Omega0 omega :: real
  defines "t \<equiv> omega\<^sup>2 / Omega0 ^ 3"
  assumes "0 < Omega0" and "0 < omega" and "0 < t" and "t < 0.1"
    and "choice AND 2 = 2" and "2 \<le> length res"
  shows "arr (volume res choice Omega0 omega) ! 1 =
           - 3 * (4 * pi / (3 * Omega0 ^ 3))
             * (horner volume_coeffs t + t * horner (termwise_derivative volume_coeffs) t)
             / Omega0
       \<and> length volume_coeffs = 11
       \<and> ((\<lambda>x. horner volume_coeffs x) has_real_derivative
             horner (termwise_derivative volume_coeffs) t) (at t)
       \<and> ((\<lambda>W. 4 * pi / (3 * W ^ 3) * horner volume_coeffs (omega\<^sup>2 / W ^ 3))
             has_real_derivative arr (volume res choice Omega0 omega) ! 1) (at Omega0)"
proof -
  let ?V = "horner volume_coeffs t" and ?V' = "horner (termwise_derivative volume_coeffs) t"
  have nz: "omega \<noteq> 0" and W: "Omega0 \<noteq> 0" using assms by auto
  have c: "choice AND 1 = 1 \<or> choice AND 2 = 2" using assms by simp
  have tt: "t = omega * omega / (Omega0 * (Omega0 * Omega0))"
    unfolding t_def by (simp only: regime_key)
  have lo: "\<not> 8 / 27 < t" and hi: "t < 1 / 10" using \<open>t < 0.1\<close> by simp_all
  have len: "Suc 0 < length res" using assms by simp
  have cube: "Omega0 * (Omega0 * Omega0) = Omega0 ^ 3"
    by (simp add: power3_eq_cube mult.assoc)
  have "arr (volume res choice Omega0 omega) ! 1 =
      vol_series res (choice AND 1 = 1) True Omega0 (Omega0 ^ 3) t ! 1"
    using volume_series [OF c nz tt lo hi, of res] assms(6) by (simp add: cube)
  also have "\<dots> = - 3 * (M_4PI / (3 * Omega0 ^ 3))
      * (series11 volume_coeffs t + t * dseries11 volume_coeffs t) / Omega0"
    unfolding vol_series_def Let_def using len by (simp add: store_pair_nth1)
  also have "\<dots> = - 3 * (4 * pi / (3 * Omega0 ^ 3)) * (?V + t * ?V') / Omega0"
    by (simp only: series11_volume_horner dseries11_volume_horner M_4PI_def)
  finally have val: "arr (volume res choice Omega0 omega) ! 1 =
      - 3 * (4 * pi / (3 * Omega0 ^ 3)) * (?V + t * ?V') / Omega0" .
  have l11: "length volume_coeffs = 11" by (simp add: volume_coeffs_def)
  have dV: "((\<lambda>x. horner volume_coeffs x) has_real_derivative ?V') (at t)"
    by (rule horner_has_derivative)
  have "((\<lambda>W. (4 * pi / 3) / W ^ 3 * horner volume_coeffs (omega\<^sup>2 / W ^ 3))
      has_real_derivative
        - 3 * ((4 * pi / 3) / Omega0 ^ 3) * (?V + t * ?V') / Omega0) (at Omega0)"
    unfolding t_def by (rule prefactor_chain_rule [OF dV [unfolded t_def] W])
  then have dW: "((\<lambda>W. 4 * pi / (3 * W ^ 3) * horner volume_coeffs (omega\<^sup>2 / W ^ 3))
      has_real_derivative arr (volume res choice Omega0 omega) ! 1) (at Omega0)"
    unfolding val by (simp add: divide_divide_eq_left mult.commute)
  from val l11 dV dW show ?thesis by blast
qed

theorem series_derivative_is_termwise_witness:
  "arr (volume [0, 0] 3 5 1) ! 1 =
     - 3 * (4 * pi / (3 * 5 ^ 3))
       * (horner volume_coeffs (1 / 125)
          + 1 / 125 * horner (termwise_derivative volume_coeffs) (1 / 125)) / 5"
  using series_derivative_is_termwise [of 5 1 3 "[0, 0]"]
  by simp

section \<open>The potential evaluator\<close>

lemma root3_64: "root 3 (8 * 8) = (4::real)"
proof -
  have "root 3 (4 ^ 3) = (4::real)" by (rule real_root_power_cancel) simp_all
  then show ?thesis by simp
qed

lemma powr_8_two_thirds: "(8::real) powr (2 / 3) = 4"
proof -
  have "(8::real) powr (2 / 3) = (2 powr 3) powr (2 / 3)" by simp
  also have "\<dots> = 2 powr 2" by (simp only: powr_powr) simp
  finally show ?thesis by simp
qed

text \<open>
  The value \<open>critical_potential\<close> returns is the potential on the axis at the reciprocal
  of what \<open>lagrange_point\<close> returns: it is at \<open>x = 1/cbrt(omega^2)\<close> that \<open>3*omega^(2/3)/2\<close>
  is attained.
\<close>

lemma critical_potential_at_reciprocal:
  assumes "0 < omega"
  shows "critical_potential omega = Some (potential_on_x_axis (1 / root 3 (omega * omega)) omega)"
proof -
  define L where "L = root 3 (omega * omega)"
  have w2: "0 < omega * omega" using assms by simp
  have Lpos: "0 < L" unfolding L_def using w2 by simp
  have L3: "L ^ 3 = omega * omega"
    unfolding L_def using w2 by (simp add: real_root_pow_pos2)
  have "L = (omega * omega) powr (1 / 3)"
    unfolding L_def using w2 by (simp add: root_powr_inverse)
  also have "\<dots> = (omega powr 2) powr (1 / 3)"
    using assms by (simp add: power2_eq_square)
  also have "\<dots> = omega powr (2 / 3)"
    by (simp only: powr_powr) simp
  finally have Lp: "omega powr (2 / 3) = L" by simp
  have "potential_on_x_axis (1 / L) omega = L + L ^ 3 * (1 / L) * (1 / L) / 2"
    unfolding potential_on_x_axis_def L3 using Lpos by simp
  also have "\<dots> = 3 * L / 2"
    using Lpos by (simp add: field_simps power3_eq_cube)
  finally show ?thesis
    using assms by (simp add: critical_potential_def Lp L_def)
qed

text \<open>
  Claim C3. The claim is that for every \<open>omega > 0\<close> the critical potential is the potential
  at the point \<open>lagrange_point\<close> returns. At \<open>omega = 8\<close> the source gives
  \<open>lagrange_point = cbrt(64) = 4\<close>, the potential there is \<open>1/4 + 64*16/2 = 2049/4\<close>, and
  \<open>critical_potential = 3 * 8^(2/3) / 2 = 6\<close>.
\<close>

theorem critical_potential_is_not_potential_at_lagrange_point:
  "lagrange_point 8 = Some 4
   \<and> potential_on_x_axis 4 8 = 2049 / 4
   \<and> critical_potential 8 = Some 6"
  by (simp add: lagrange_point_def potential_on_x_axis_def critical_potential_def
      root3_64 powr_8_two_thirds)

section \<open>The axis intercepts\<close>

text \<open>
  Claim C4. The claim is that for \<open>omega = 0\<close> the function yields the pair
  \<open>{-1/Omega0, +1/Omega0}\<close>. The source leaves through its first statement with the
  vector as the caller passed it: for an empty vector the result is empty.
\<close>

theorem points_on_x_axis_without_rotation:
  "points_on_x_axis solve_cubic points Omega0 0 trimming = points"
  by (simp add: points_on_x_axis_def)

subsection \<open>The elements of the untrimmed result\<close>

lemma example_points:
  "points_on_x_axis example_roots [] (13 / 8) (3 / 4) False = [- (3 / 2), - (1 / 2), 1 / 2, 3 / 2]"
  "points_on_x_axis example_roots [] (13 / 8) (3 / 4) True = [- (1 / 2), 1 / 2]"
  by (simp_all add: points_on_x_axis_def example_roots_def)

lemma example_roots_complete:
  "x \<in> set (example_roots [1, - (13 / 8), 0, 9 / 32])
     \<longleftrightarrow> cubic_spec [1, - (13 / 8), 0, 9 / 32] x = 0"
proof -
  have "cubic_spec [1, - (13 / 8), 0, 9 / 32] x = (x + 3 / 8) * (x - 1 / 2) * (x - 3 / 2)"
    by (simp add: cubic_spec_def power3_eq_cube power2_eq_square field_simps)
  then show ?thesis
    by (auto simp add: example_roots_def)
qed

lemma push_roots_append:
  "push_roots roots points = points @ concat (map (\<lambda>x. [x, - x]) (filter (\<lambda>x. 0 < x) roots))"
  by (induction roots arbitrary: points) simp_all

lemma push_roots_set:
  "x \<in> set (push_roots roots []) \<longleftrightarrow> 0 < \<bar>x\<bar> \<and> \<bar>x\<bar> \<in> set roots"
  unfolding push_roots_append by (auto simp add: abs_if)

lemma points_untrimmed_set:
  "omega \<noteq> 0 \<Longrightarrow>
   x \<in> set (points_on_x_axis solve_cubic [] Omega0 omega False)
     \<longleftrightarrow> 0 < \<bar>x\<bar> \<and> \<bar>x\<bar> \<in> set (solve_cubic [1, - Omega0, 0, omega * omega / 2])"
  by (simp add: points_on_x_axis_def Let_def push_roots_set)

lemma example_points_ascending:
  "points_on_x_axis example_roots_ascending [] (13 / 8) (3 / 4) False
     = [- 2, - (2 / 3), 2 / 3, 2]"
  by (simp add: points_on_x_axis_def example_roots_ascending_def)

lemma example_roots_ascending_complete:
  "x \<in> set (example_roots_ascending [1, - (13 / 8), 0, 9 / 32])
     \<longleftrightarrow> cubic_ascending [1, - (13 / 8), 0, 9 / 32] x = 0"
proof -
  have "cubic_ascending [1, - (13 / 8), 0, 9 / 32] x
      = 9 / 32 * ((x + 8 / 3) * (x - 2 / 3) * (x - 2))"
    by (simp add: cubic_ascending_def power3_eq_cube power2_eq_square field_simps)
  then have "cubic_ascending [1, - (13 / 8), 0, 9 / 32] x = 0
      \<longleftrightarrow> x + 8 / 3 = 0 \<or> x - 2 / 3 = 0 \<or> x - 2 = 0"
    by (simp only: mult_eq_0_iff) simp
  also have "\<dots> \<longleftrightarrow> x = - (8 / 3) \<or> x = 2 / 3 \<or> x = 2"
    by auto
  finally show ?thesis
    by (auto simp add: example_roots_ascending_def)
qed

text \<open>
  A nonzero point lies on the equipotential exactly when its absolute value is a root
  of the array read from the constant term up.
\<close>

lemma on_equipotential_iff:
  assumes "x \<noteq> 0"
  shows "potential_on_x_axis x omega = Omega0
     \<longleftrightarrow> cubic_ascending [1, - Omega0, 0, omega * omega / 2] \<bar>x\<bar> = 0"
proof -
  define r where "r = \<bar>x\<bar>"
  have r: "0 < r" using assms unfolding r_def by simp
  have xx: "x * x = r * r" unfolding r_def by simp
  have "potential_on_x_axis x omega = 1 / r + omega * omega * (r * r) / 2"
    unfolding potential_on_x_axis_def r_def [symmetric] by (simp add: mult.assoc xx)
  also have "\<dots> = (1 + omega * omega / 2 * r ^ 3) / r"
    using r by (simp add: field_simps power3_eq_cube)
  finally have eq: "potential_on_x_axis x omega = (1 + omega * omega / 2 * r ^ 3) / r" .
  have "potential_on_x_axis x omega = Omega0
      \<longleftrightarrow> 1 + omega * omega / 2 * r ^ 3 = Omega0 * r"
    unfolding eq using r by (simp only: divide_eq_eq) simp
  also have "\<dots> \<longleftrightarrow> cubic_ascending [1, - Omega0, 0, omega * omega / 2] r = 0"
    by (auto simp add: cubic_ascending_def)
  finally show ?thesis unfolding r_def .
qed

text \<open>
  Claim C7, amended. For every \<open>Omega0 > 0\<close> and \<open>omega > 0\<close>, every element \<open>x\<close> of the
  untrimmed result is nonzero, and \<open>|x|\<close> is one of the roots the solver returned for the
  array \<open>{1, -Omega0, 0, omega*omega/2}\<close>: an element is a strictly positive root or the
  mirror image of one. If those roots satisfy the cubic of the specification, then
  \<open>|x|^3 - Omega0*|x|^2 + omega^2/2 = 0\<close>. If they satisfy the cubic of the array read from
  the constant term up, then \<open>potential_on_x_axis x omega = Omega0\<close>.
\<close>

theorem axis_intercepts_mirror_solver_roots:
  assumes "0 < Omega0" and "0 < omega"
    and "x \<in> set (points_on_x_axis solve_cubic [] Omega0 omega False)"
  shows "x \<noteq> 0
       \<and> \<bar>x\<bar> \<in> set (solve_cubic [1, - Omega0, 0, omega * omega / 2])
       \<and> ((\<forall>r \<in> set (solve_cubic [1, - Omega0, 0, omega * omega / 2]).
              cubic_spec [1, - Omega0, 0, omega * omega / 2] r = 0)
            \<longrightarrow> \<bar>x\<bar> ^ 3 - Omega0 * \<bar>x\<bar>\<^sup>2 + omega\<^sup>2 / 2 = 0)
       \<and> ((\<forall>r \<in> set (solve_cubic [1, - Omega0, 0, omega * omega / 2]).
              cubic_ascending [1, - Omega0, 0, omega * omega / 2] r = 0)
            \<longrightarrow> potential_on_x_axis x omega = Omega0)"
proof -
  let ?a = "[1, - Omega0, 0, omega * omega / 2]"
  have nz: "omega \<noteq> 0" using assms(2) by simp
  from assms(3) have x: "0 < \<bar>x\<bar>" "\<bar>x\<bar> \<in> set (solve_cubic ?a)"
    by (simp_all add: points_untrimmed_set [OF nz])
  have x0: "x \<noteq> 0" using x(1) by simp
  have d: "\<bar>x\<bar> ^ 3 - Omega0 * \<bar>x\<bar>\<^sup>2 + omega\<^sup>2 / 2 = 0"
    if "\<forall>r \<in> set (solve_cubic ?a). cubic_spec ?a r = 0"
  proof -
    from that x(2) have "cubic_spec ?a \<bar>x\<bar> = 0" by blast
    then show ?thesis by (simp add: cubic_spec_def power2_eq_square)
  qed
  have a: "potential_on_x_axis x omega = Omega0"
    if "\<forall>r \<in> set (solve_cubic ?a). cubic_ascending ?a r = 0"
  proof -
    from that x(2) have "cubic_ascending ?a \<bar>x\<bar> = 0" by blast
    then show ?thesis by (simp only: on_equipotential_iff [OF x0])
  qed
  from x0 x(2) d a show ?thesis by blast
qed

theorem axis_intercepts_mirror_solver_roots_witness:
  "\<bar>- (1 / 2) :: real\<bar> ^ 3 - 13 / 8 * \<bar>- (1 / 2)\<bar>\<^sup>2 + (3 / 4)\<^sup>2 / 2 = 0
   \<and> potential_on_x_axis (- 2) (3 / 4) = 13 / 8"
proof -
  have pos: "(0::real) < 13 / 8" "(0::real) < 3 / 4" by simp_all
  have m1: "- (1 / 2) \<in> set (points_on_x_axis example_roots [] (13 / 8) (3 / 4) False)"
    by (simp add: example_points)
  have m2: "- 2 \<in> set (points_on_x_axis example_roots_ascending [] (13 / 8) (3 / 4) False)"
    by (simp add: example_points_ascending)
  have h1: "\<forall>r \<in> set (example_roots [1, - (13 / 8), 0, 3 / 4 * (3 / 4) / 2]).
      cubic_spec [1, - (13 / 8), 0, 3 / 4 * (3 / 4) / 2] r = 0"
    by (simp add: example_roots_def cubic_spec_def power3_eq_cube power2_eq_square)
  have h2: "\<forall>r \<in> set (example_roots_ascending [1, - (13 / 8), 0, 3 / 4 * (3 / 4) / 2]).
      cubic_ascending [1, - (13 / 8), 0, 3 / 4 * (3 / 4) / 2] r = 0"
    by (simp add: example_roots_ascending_def cubic_ascending_def power3_eq_cube
        power2_eq_square)
  from axis_intercepts_mirror_solver_roots [OF pos m1] h1
    axis_intercepts_mirror_solver_roots [OF pos m2] h2
  show ?thesis by blast
qed

text \<open>
  The claim as stated fails in the worked example, under either reading of the array.
  For the cubic of the specification the result contains \<open>-1/2\<close>, the mirror image of the
  root \<open>1/2\<close>, and \<open>-1/2\<close> does not satisfy that cubic. For the array read from the
  constant term up the result contains \<open>2\<close>, which does not satisfy the cubic of the
  specification either. And the two are not equivalent: \<open>1/2\<close> satisfies the cubic of
  the specification, while the potential there is not \<open>Omega0 = 13/8\<close>.
\<close>

theorem intercepts_fail_the_cubic:
  "- (1 / 2) \<in> set (points_on_x_axis example_roots [] (13 / 8) (3 / 4) False)
   \<and> (- (1 / 2)) ^ 3 - 13 / 8 * (- (1 / 2))\<^sup>2 + (3 / 4)\<^sup>2 / 2 \<noteq> (0::real)
   \<and> 2 \<in> set (points_on_x_axis example_roots_ascending [] (13 / 8) (3 / 4) False)
   \<and> 2 ^ 3 - 13 / 8 * 2\<^sup>2 + (3 / 4)\<^sup>2 / 2 \<noteq> (0::real)
   \<and> (1 / 2) ^ 3 - 13 / 8 * (1 / 2)\<^sup>2 + (3 / 4)\<^sup>2 / 2 = (0::real)
   \<and> potential_on_x_axis (1 / 2) (3 / 4) \<noteq> 13 / 8"
  by (simp add: example_points example_points_ascending potential_on_x_axis_def
      power3_eq_cube power2_eq_square)

subsection \<open>Order and symmetry of the result\<close>

lemma push_roots_mirror:
  "image_mset uminus (mset points) = mset points \<Longrightarrow>
   image_mset uminus (mset (push_roots roots points)) = mset (push_roots roots points)"
  by (induction roots arbitrary: points) simp_all

lemma sorted_mirror_is_reverse:
  fixes xs :: "real list"
  assumes "sorted xs" and "image_mset uminus (mset xs) = mset xs"
  shows "rev (map uminus xs) = xs"
proof -
  have "sorted (rev (map uminus xs))"
    using assms(1) by (simp add: sorted_wrt_rev sorted_wrt_map)
  moreover have "mset (rev (map uminus xs)) = mset xs"
    using assms(2) by simp
  ultimately have "sort xs = rev (map uminus xs)"
    by (rule properties_for_sort [rotated])
  moreover have "sort xs = xs"
    using assms(1) by (rule sort_key_id_if_sorted [where f = "\<lambda>x. x", simplified])
  ultimately show ?thesis by simp
qed

lemma trimmed_mirror_is_reverse:
  fixes xs :: "real list"
  assumes "rev (map uminus xs) = xs"
  shows "rev (map uminus (tl (butlast xs))) = tl (butlast xs)"
proof -
  have tl_rev: "tl (rev ys) = rev (butlast ys)" for ys :: "real list"
    using butlast_rev [of "rev ys"] by (simp only: rev_rev_ident rev_swap)
  have "butlast (tl (rev (map uminus xs))) = rev (tl (butlast (map uminus xs)))"
    by (simp only: tl_rev butlast_rev)
  also have "\<dots> = rev (map uminus (tl (butlast xs)))"
    by (simp only: map_tl map_butlast)
  finally show ?thesis
    unfolding assms by (simp only: butlast_tl)
qed

lemma reverse_mirror_closed:
  fixes xs :: "real list"
  assumes "rev (map uminus xs) = xs" and "x \<in> set xs"
  shows "- x \<in> set xs"
proof -
  have "- x \<in> set (rev (map uminus xs))" using assms(2) by simp
  then show ?thesis unfolding assms(1) .
qed

text \<open>
  Claim C8. For every \<open>Omega0 > 0\<close> and \<open>omega > 0\<close>, with and without trimming, and whatever
  roots the solver returns, the result built from an empty vector is sorted ascending
  and contains \<open>-x\<close> with every \<open>x\<close>. The sorted vector reads the same backwards with the
  signs flipped, and dropping its first and last element keeps that.
\<close>

theorem axis_intercepts_sorted_and_symmetric:
  assumes "0 < Omega0" and "0 < omega"
  shows "sorted (points_on_x_axis solve_cubic [] Omega0 omega trimming)
       \<and> (\<forall>x \<in> set (points_on_x_axis solve_cubic [] Omega0 omega trimming).
             - x \<in> set (points_on_x_axis solve_cubic [] Omega0 omega trimming))"
proof -
  define ps where
    "ps = sort (push_roots (solve_cubic [1, - Omega0, 0, omega * omega / 2]) [])"
  have nz: "omega \<noteq> 0" using assms(2) by simp
  have res: "points_on_x_axis solve_cubic [] Omega0 omega trimming =
      (if length ps \<ge> 2 \<and> trimming then tl (butlast ps) else ps)"
    using nz by (simp add: points_on_x_axis_def Let_def ps_def)
  have s: "sorted ps" unfolding ps_def by simp
  have "image_mset uminus (mset ps) = mset ps"
    unfolding ps_def by (simp add: push_roots_mirror)
  with s have m: "rev (map uminus ps) = ps" by (rule sorted_mirror_is_reverse)
  have m': "rev (map uminus (tl (butlast ps))) = tl (butlast ps)"
    using m by (rule trimmed_mirror_is_reverse)
  have s': "sorted (tl (butlast ps))"
    using s by (intro sorted_tl sorted_butlast)
  show ?thesis
    unfolding res using s s' reverse_mirror_closed [OF m] reverse_mirror_closed [OF m']
    by simp
qed

theorem axis_intercepts_sorted_and_symmetric_witness:
  "sorted (points_on_x_axis example_roots [] (13 / 8) (3 / 4) True)
   \<and> - (1 / 2) \<in> set (points_on_x_axis example_roots [] (13 / 8) (3 / 4) True)
   \<and> sorted (points_on_x_axis example_roots [] (13 / 8) (3 / 4) False)
   \<and> - (3 / 2) \<in> set (points_on_x_axis example_roots [] (13 / 8) (3 / 4) False)"
proof -
  have pos: "(0::real) < 13 / 8" "(0::real) < 3 / 4" by simp_all
  have mem: "1 / 2 \<in> set (points_on_x_axis example_roots [] (13 / 8) (3 / 4) True)"
    "3 / 2 \<in> set (points_on_x_axis example_roots [] (13 / 8) (3 / 4) False)"
    by (simp_all add: example_points)
  from axis_intercepts_sorted_and_symmetric [OF pos, of example_roots True]
    axis_intercepts_sorted_and_symmetric [OF pos, of example_roots False] mem
  show ?thesis by blast
qed

end
